theory Spec2Isabelle
  imports Main "HOL-Library.Word"
begin

section \<open>JavaScript values used by key-store.js\<close>

text \<open>
  The module handles four kinds of argument: hex strings (signature, public key),
  identifiers (strings), message data (a string or a Buffer) and key handles (objects of
  the cryptography library). Each of them may also be missing, so every argument is a
  \<open>'a js\<close>: \<open>Undefined\<close> (no argument), \<open>Null\<close>, or a present value.

  A Buffer is a list of bytes. Values are immutable here: a Buffer stored in the cache is
  the Buffer that was passed, and nobody changes its bytes afterwards. Every async function
  runs to completion before the next call starts.
\<close>

type_synonym byte = "8 word"
type_synonym bytes = "byte list"

datatype 'a js = Undefined | Null | Val 'a

datatype payload = Str string | Buf bytes

text \<open>
  Every \<open>throw new Error(msg)\<close> of the source is \<open>Error msg\<close>. \<open>TypeError\<close> is what
  the JavaScript runtime raises by itself: reading a property of undefined or null, and
  \<open>Buffer.compare\<close> applied to something that is not a Buffer.
\<close>

datatype error = Error string | TypeError string

text \<open>
  \<open>!x\<close> in the source: undefined, null and the empty string are falsy; every object
  (a Buffer, also an empty one, and a key handle) is truthy.
\<close>

fun truthy_str :: "string js \<Rightarrow> bool" where
  "truthy_str (Val s) = (s \<noteq> [])"
| "truthy_str Undefined = False"
| "truthy_str Null = False"

fun truthy_payload :: "payload \<Rightarrow> bool" where
  "truthy_payload (Str s) = (s \<noteq> [])"
| "truthy_payload (Buf b) = True"

fun truthy_data :: "payload js \<Rightarrow> bool" where
  "truthy_data (Val d) = truthy_payload d"
| "truthy_data Undefined = False"
| "truthy_data Null = False"

subsection \<open>Hex encoding of Buffers\<close>

text \<open>
  \<open>buf.toString('hex')\<close>: two lowercase hex digits per byte.
  \<open>Buffer.from(str, 'hex')\<close>: decodes pairs of hex digits (either case) and stops at the
  first pair that is not hex, or at a trailing single character; it never throws.
\<close>

definition hex_digit :: "nat \<Rightarrow> char" where
  "hex_digit n = ''0123456789abcdef'' ! n"

definition byte_hex :: "byte \<Rightarrow> string" where
  "byte_hex b = [hex_digit (unat b div 16), hex_digit (unat b mod 16)]"

definition toString_hex :: "bytes \<Rightarrow> string" where
  "toString_hex bs = concat (map byte_hex bs)"

definition hex_val :: "char \<Rightarrow> nat option" where
  "hex_val c =
     (let n = (of_char c :: nat) in
      if 48 \<le> n \<and> n \<le> 57 then Some (n - 48)
      else if 97 \<le> n \<and> n \<le> 102 then Some (n - 87)
      else if 65 \<le> n \<and> n \<le> 70 then Some (n - 55)
      else None)"

fun from_hex :: "string \<Rightarrow> bytes" where
  "from_hex (a # b # cs) =
     (case hex_val a of
        None \<Rightarrow> []
      | Some h \<Rightarrow>
          (case hex_val b of
             None \<Rightarrow> []
           | Some l \<Rightarrow> word_of_nat (16 * h + l) # from_hex cs))"
| "from_hex [a] = []"
| "from_hex [] = []"

section \<open>The libraries the module imports\<close>

text \<open>
  \<open>@libp2p/crypto\<close> (the secp256k1 keys) and the UTF-8 coding of \<open>safe-buffer\<close> are
  not part of this repository; the module is modelled over any implementation of them.
  \<open>'k\<close> is a private-key handle (a key pair), \<open>'p\<close> a public-key handle.
  A function that can throw returns \<open>error + _\<close>.

  \<^item> \<open>pair_bytes\<close>: \<open>pair.bytes\<close> of a generated pair;
  \<^item> \<open>unmarshalPrivateKey\<close>: \<open>crypto.keys.unmarshalPrivateKey\<close>;
  \<^item> \<open>unmarshal\<close>: \<open>unmarshalSecp256k1PrivateKey\<close> (line 7);
  \<^item> \<open>unmarshalPubKey\<close>: \<open>unmarshalSecp256k1PublicKey\<close> (line 8);
  \<^item> \<open>marshal\<close>: \<open>keys.marshal()\<close>, the private-key bytes;
  \<^item> \<open>public_marshal\<close>: \<open>keys.public.marshal()\<close>, the public-key bytes;
  \<^item> \<open>sign\<close>: \<open>key.sign(data)\<close>; \<open>verify\<close>: \<open>pubKey.verify(msg, sig)\<close>;
  \<^item> \<open>utf8_bytes\<close>: \<open>Buffer.from(string)\<close>; \<open>utf8_string\<close>: \<open>buf.toString()\<close>.
\<close>

record ('k, 'p) platform =
  pair_bytes :: "'k \<Rightarrow> bytes"
  unmarshalPrivateKey :: "bytes \<Rightarrow> error + 'k"
  unmarshal :: "bytes \<Rightarrow> error + 'k"
  unmarshalPubKey :: "bytes \<Rightarrow> error + 'p"
  marshal :: "'k \<Rightarrow> bytes"
  public_marshal :: "'k \<Rightarrow> bytes"
  sign :: "'k \<Rightarrow> bytes \<Rightarrow> error + bytes"
  verify :: "'p \<Rightarrow> bytes \<Rightarrow> bytes \<Rightarrow> error + bool"
  utf8_bytes :: "string \<Rightarrow> bytes"
  utf8_string :: "bytes \<Rightarrow> string"

text \<open>
  \<open>if (!Buffer.isBuffer(data)) { data = Buffer.from(data) }\<close> (lines 21-23 and 47-49).
\<close>

fun to_buffer :: "('k, 'p) platform \<Rightarrow> payload \<Rightarrow> bytes" where
  "to_buffer P (Buf b) = b"
| "to_buffer P (Str s) = utf8_bytes P s"

section \<open>verifySignature and signMessage\<close>

text \<open>
  Lines 27-33: the \<open>try\<close> block. Whatever \<open>unmarshalPubKey\<close> or \<open>verify\<close> throws
  is caught, and \<open>res\<close> stays \<open>false\<close>.
\<close>

definition try_verify :: "('k, 'p) platform \<Rightarrow> string \<Rightarrow> string \<Rightarrow> bytes \<Rightarrow> bool" where
  "try_verify P signature publicKey data =
     (case unmarshalPubKey P (from_hex publicKey) of
        Inl e \<Rightarrow> False
      | Inr pubKey \<Rightarrow>
          (case verify P pubKey data (from_hex signature) of
             Inl e \<Rightarrow> False
           | Inr res \<Rightarrow> res))"

text \<open>
  Lines 10-36. The three guards come first, in the order of the source: a missing or
  empty signature, then a missing or empty public key, then missing or empty data.
\<close>

definition verifySignature ::
  "('k, 'p) platform \<Rightarrow> string js \<Rightarrow> string js \<Rightarrow> payload js \<Rightarrow> error + bool" where
  "verifySignature P signature publicKey data =
     (case signature of
        Val s \<Rightarrow>
          if s = [] then Inl (Error ''No signature given'')
          else
            (case publicKey of
               Val pk \<Rightarrow>
                 if pk = [] then Inl (Error ''Given publicKey was undefined'')
                 else
                   (case data of
                      Val d \<Rightarrow>
                        if \<not> truthy_payload d
                        then Inl (Error ''Given input data was undefined'')
                        else Inr (try_verify P s pk (to_buffer P d))
                    | _ \<Rightarrow> Inl (Error ''Given input data was undefined''))
             | _ \<Rightarrow> Inl (Error ''Given publicKey was undefined''))
      | _ \<Rightarrow> Inl (Error ''No signature given''))"

text \<open>
  Lines 38-52. A key is an object, truthy whenever it is present. An exception of
  \<open>key.sign\<close> is not caught.
\<close>

definition signMessage ::
  "('k, 'p) platform \<Rightarrow> 'k js \<Rightarrow> payload js \<Rightarrow> error + string" where
  "signMessage P key data =
     (case key of
        Val k \<Rightarrow>
          (case data of
             Val d \<Rightarrow>
               if \<not> truthy_payload d then Inl (Error ''Given input data was undefined'')
               else
                 (case sign P k (to_buffer P d) of
                    Inl e \<Rightarrow> Inl e
                  | Inr s \<Rightarrow> Inr (toString_hex s))
           | _ \<Rightarrow> Inl (Error ''Given input data was undefined''))
      | _ \<Rightarrow> Inl (Error ''No signing key given''))"

section \<open>The LRU container\<close>

text \<open>
  Modelled from the spec: \<open>src/storage/lru.js\<close> is not among the sources. Section 4.3
  of the specification: a fixed-capacity mapping from key to value; \<open>put\<close> beyond the
  capacity evicts the least-recently-used entry; \<open>get\<close> promotes the entry's recency.
  The entries are kept most recently used first.
\<close>

record ('a, 'b) lru =
  capacity :: nat
  items :: "('a \<times> 'b) list"

text \<open>Modelled from the spec: the empty container, its capacity fixed at construction.\<close>

definition LRUStorage :: "nat \<Rightarrow> ('a, 'b) lru" where
  "LRUStorage n = \<lparr>capacity = n, items = []\<rparr>"

text \<open>Modelled from the spec: the value the container holds under a key, if any.\<close>

definition lru_lookup :: "('a, 'b) lru \<Rightarrow> 'a \<Rightarrow> 'b option" where
  "lru_lookup c k = map_of (items c) k"

text \<open>
  Modelled from the spec: \<open>get\<close> returns the value and moves the entry to the front; a
  key that is not there leaves the container as it is.
\<close>

definition lru_get :: "'a \<Rightarrow> ('a, 'b) lru \<Rightarrow> 'b option \<times> ('a, 'b) lru" where
  "lru_get k c =
     (case map_of (items c) k of
        None \<Rightarrow> (None, c)
      | Some v \<Rightarrow> (Some v, c\<lparr>items := (k, v) # filter (\<lambda>p. fst p \<noteq> k) (items c)\<rparr>))"

text \<open>
  Modelled from the spec: \<open>put\<close> replaces the entry of the key, places it at the front
  and drops what no longer fits, the least recently used entries.
\<close>

definition lru_put :: "'a \<Rightarrow> 'b \<Rightarrow> ('a, 'b) lru \<Rightarrow> ('a, 'b) lru" where
  "lru_put k v c =
     c\<lparr>items := take (capacity c) ((k, v) # filter (\<lambda>p. fst p \<noteq> k) (items c))\<rparr>"

section \<open>verifyMessage and the verification cache\<close>

text \<open>
  Line 65 stores the object \<open>{ publicKey, data }\<close> under the signature. Line 54 creates
  the cache once, with \<open>size: 1000\<close>; only \<open>verifyMessage\<close> reaches it.
\<close>

record entry =
  publicKey :: "string js"
  data :: "payload js"

type_synonym vcache = "(string js, entry) lru"

definition verifiedCache :: vcache where
  "verifiedCache = LRUStorage 1000"

text \<open>
  Lines 68-71, \<open>compare(cached.data, data)\<close>. When the supplied data is a Buffer the
  source calls \<open>Buffer.compare(cached, data)\<close>, which throws a TypeError unless both
  arguments are Buffers. Otherwise it compares \<open>cached.toString()\<close> with
  \<open>data.toString()\<close>; calling \<open>toString\<close> on undefined or null throws a TypeError.
\<close>

fun isBuffer :: "payload js \<Rightarrow> bool" where
  "isBuffer (Val (Buf b)) = True"
| "isBuffer (Val (Str s)) = False"
| "isBuffer Undefined = False"
| "isBuffer Null = False"

fun js_toString :: "('k, 'p) platform \<Rightarrow> payload js \<Rightarrow> error + string" where
  "js_toString P (Val (Str s)) = Inr s"
| "js_toString P (Val (Buf b)) = Inr (utf8_string P b)"
| "js_toString P Undefined = Inl (TypeError ''Cannot read properties of undefined'')"
| "js_toString P Null = Inl (TypeError ''Cannot read properties of null'')"

fun compare :: "('k, 'p) platform \<Rightarrow> payload js \<Rightarrow> payload js \<Rightarrow> error + bool" where
  "compare P (Val (Buf c)) (Val (Buf d)) = Inr (c = d)"
| "compare P cached (Val (Buf d)) = Inl (TypeError ''The buf1 argument must be a Buffer'')"
| "compare P cached d =
     (case js_toString P cached of
        Inl e \<Rightarrow> Inl e
      | Inr a \<Rightarrow> (case js_toString P d of Inl e \<Rightarrow> Inl e | Inr b \<Rightarrow> Inr (a = b)))"

text \<open>
  Lines 56-75. The result is the returned boolean, or the exception that escapes, together
  with the cache after the call. \<open>&&\<close> on line 72 does not evaluate \<open>compare\<close> when
  the public keys differ.
\<close>

definition verifyMessage ::
  "('k, 'p) platform \<Rightarrow> vcache \<Rightarrow> string js \<Rightarrow> string js \<Rightarrow> payload js \<Rightarrow>
     (error + bool) \<times> vcache" where
  "verifyMessage P cache signature publicKey' data' =
     (case lru_get signature cache of
        (None, cache1) \<Rightarrow>
          (case verifySignature P signature publicKey' data' of
             Inl e \<Rightarrow> (Inl e, cache1)
           | Inr verified \<Rightarrow>
               if verified
               then (Inr True,
                     lru_put signature \<lparr>publicKey = publicKey', data = data'\<rparr> cache1)
               else (Inr False, cache1))
      | (Some cached, cache1) \<Rightarrow>
          if publicKey cached = publicKey' then (compare P (data cached) data', cache1)
          else (Inr False, cache1))"

text \<open>A sequence of calls, each on the cache the previous one left.\<close>

type_synonym call = "string js \<times> string js \<times> payload js"

fun run :: "('k, 'p) platform \<Rightarrow> call list \<Rightarrow> vcache \<Rightarrow> vcache" where
  "run P [] cache = cache"
| "run P ((s, pk, d) # calls) cache = run P calls (snd (verifyMessage P cache s pk d))"

section \<open>Storage\<close>

text \<open>
  \<open>KeyStore\<close> takes its storage as an option (line 86) and uses two of its operations,
  \<open>get\<close> and \<open>put\<close>. A storage is modelled by these two operations over a state
  \<open>'s\<close> of its own; either may throw, and either may change the state.
\<close>

record 's storage =
  storage_get :: "string \<Rightarrow> 's \<Rightarrow> (error + bytes js) \<times> 's"
  storage_put :: "string \<Rightarrow> bytes \<Rightarrow> 's \<Rightarrow> (error + unit) \<times> 's"

text \<open>
  Modelled from the spec: \<open>src/storage/composed.js\<close> and \<open>src/storage/level.js\<close> are
  not among the sources. Section 4.2 of the specification: \<open>get\<close> checks the cache tier
  first; on a miss it reads the persistent tier and, if the value is found, puts it into
  the cache tier before returning it; if neither tier has the key the result is absent.
  \<open>put\<close> writes the persistent tier first, then the cache tier. The persistent tier is a
  key-value store, here an association list. Line 87 builds the default storage with a
  cache tier of size 1000.
\<close>

record composed =
  cache_tier :: "(string, bytes) lru"
  persistent_tier :: "(string \<times> bytes) list"

text \<open>Modelled from the spec: \<open>get\<close> of the composed storage (section 4.2).\<close>

definition composed_get :: "string \<Rightarrow> composed \<Rightarrow> (error + bytes js) \<times> composed" where
  "composed_get k st =
     (case lru_get k (cache_tier st) of
        (Some v, c) \<Rightarrow> (Inr (Val v), st\<lparr>cache_tier := c\<rparr>)
      | (None, c) \<Rightarrow>
          (case map_of (persistent_tier st) k of
             Some v \<Rightarrow> (Inr (Val v), st\<lparr>cache_tier := lru_put k v c\<rparr>)
           | None \<Rightarrow> (Inr Undefined, st\<lparr>cache_tier := c\<rparr>)))"

text \<open>Modelled from the spec: \<open>put\<close> of the composed storage (section 4.2).\<close>

definition composed_put :: "string \<Rightarrow> bytes \<Rightarrow> composed \<Rightarrow> (error + unit) \<times> composed" where
  "composed_put k v st =
     (Inr (),
      st\<lparr>persistent_tier := (k, v) # filter (\<lambda>p. fst p \<noteq> k) (persistent_tier st),
         cache_tier := lru_put k v (cache_tier st)\<rparr>)"

text \<open>Modelled from the spec: the composed storage as a storage of \<open>KeyStore\<close>.\<close>

definition ComposedStorage :: "composed storage" where
  "ComposedStorage = \<lparr>storage_get = composed_get, storage_put = composed_put\<rparr>"

text \<open>Modelled from the spec: the state of the default storage of line 87 when new.\<close>

definition default_storage :: composed where
  "default_storage = \<lparr>cache_tier = LRUStorage 1000, persistent_tier = []\<rparr>"

section \<open>KeyStore\<close>

text \<open>
  Every operation takes the storage \<open>S\<close>, the libraries \<open>P\<close> and the state of the
  storage, and returns its result (or the exception that escapes) with the state after.
\<close>

text \<open>
  Lines 97, 119 and 139 declare \<open>hasKey\<close>, \<open>createKey\<close> and \<open>getKey\<close> with
  \<open>async\<close>. Calling an async function never throws: the call returns a promise, and
  an exception raised in the body, also before its first \<open>await\<close>, rejects that
  promise. A call of a function completes by returning a value or by throwing; \<open>async\<close>
  turns the result of a body into the completion of the call.
\<close>

datatype 'a promise = Fulfilled 'a | Rejected error

datatype 'a completion = Returned 'a | Thrown error

definition async :: "error + 'a \<Rightarrow> 'a promise completion" where
  "async body = Returned (case body of Inl e \<Rightarrow> Rejected e | Inr v \<Rightarrow> Fulfilled v)"

text \<open>
  Lines 97-112. An exception of \<open>storage.get\<close> is caught and \<open>hasKey\<close> stays false.
\<close>

definition hasKey :: "'s storage \<Rightarrow> string js \<Rightarrow> 's \<Rightarrow> (error + bool) \<times> 's" where
  "hasKey S ident st =
     (case ident of
        Val i \<Rightarrow>
          if i = [] then (Inl (Error ''id needed to check a key''), st)
          else
            (case storage_get S (''private_'' @ i) st of
               (Inl e, st1) \<Rightarrow> (Inr False, st1)
             | (Inr storedKey, st1) \<Rightarrow>
                 (Inr (storedKey \<noteq> Undefined \<and> storedKey \<noteq> Null), st1))
      | _ \<Rightarrow> (Inl (Error ''id needed to check a key''), st))"

text \<open>
  Lines 114-117. The key object of lines 129-132 has two Buffers; only the private one is
  written (the line writing the public one is commented out in the source).
\<close>

record key_object =
  key_publicKey :: bytes
  key_privateKey :: bytes

definition addKey :: "'s storage \<Rightarrow> string \<Rightarrow> key_object \<Rightarrow> 's \<Rightarrow> (error + unit) \<times> 's" where
  "addKey S i key st = storage_put S (''private_'' @ i) (key_privateKey key) st"

text \<open>
  Lines 119-137. \<open>pair\<close> is what \<open>crypto.keys.generateKeyPair('secp256k1')\<close> returned:
  the fresh random pair is an input of the model. The second argument of the source is an
  options object whose \<open>entropy\<close> field the body never reads; it is left out.
\<close>

definition createKey ::
  "'s storage \<Rightarrow> ('k, 'p) platform \<Rightarrow> string js \<Rightarrow> 'k \<Rightarrow> 's \<Rightarrow> (error + 'k) \<times> 's" where
  "createKey S P ident pair st =
     (case ident of
        Val i \<Rightarrow>
          if i = [] then (Inl (Error ''id needed to create a key''), st)
          else
            (case unmarshalPrivateKey P (pair_bytes P pair) of
               Inl e \<Rightarrow> (Inl e, st)
             | Inr keys \<Rightarrow>
                 (let pubKey = public_marshal P keys;
                      key = \<lparr>key_publicKey = pubKey, key_privateKey = marshal P keys\<rparr>
                  in case addKey S i key st of
                       (Inl e, st1) \<Rightarrow> (Inl e, st1)
                     | (Inr u, st1) \<Rightarrow> (Inr keys, st1)))
      | _ \<Rightarrow> (Inl (Error ''id needed to create a key''), st))"

text \<open>
  Lines 139-156. An exception of \<open>storage.get\<close> is ignored; a stored value is a Buffer,
  which is truthy, so \<open>!storedKey\<close> holds exactly when nothing (undefined or null) came
  back. Returning nothing is \<open>Inr Undefined\<close>. An exception of \<open>unmarshal\<close> escapes.
\<close>

definition getKey ::
  "'s storage \<Rightarrow> ('k, 'p) platform \<Rightarrow> string js \<Rightarrow> 's \<Rightarrow> (error + 'k js) \<times> 's" where
  "getKey S P ident st =
     (case ident of
        Val i \<Rightarrow>
          if i = [] then (Inl (Error ''id needed to get a key''), st)
          else
            (case storage_get S (''private_'' @ i) st of
               (Inl e, st1) \<Rightarrow> (Inr Undefined, st1)
             | (Inr (Val storedKey), st1) \<Rightarrow>
                 (case unmarshal P storedKey of
                    Inl e \<Rightarrow> (Inl e, st1)
                  | Inr k \<Rightarrow> (Inr (Val k), st1))
             | (Inr _, st1) \<Rightarrow> (Inr Undefined, st1))
      | _ \<Rightarrow> (Inl (Error ''id needed to get a key''), st))"

text \<open>
  Lines 158-167. The second argument is the \<open>format\<close> field of the options object
  (\<open>Undefined\<close> when there are no options or no such field).
  \<open>options.format || 'hex'\<close> replaces a falsy format by \<open>'hex'\<close>. The format is checked
  before \<open>keys.public\<close> is read; reading it from a missing \<open>keys\<close> throws a TypeError.
\<close>

definition formats :: "string list" where
  "formats = [''hex'', ''buffer'']"

definition getPublic :: "('k, 'p) platform \<Rightarrow> 'k js \<Rightarrow> string js \<Rightarrow> error + payload" where
  "getPublic P keys options_format =
     (let format = (case options_format of
                      Val f \<Rightarrow> if f = [] then ''hex'' else f
                    | _ \<Rightarrow> ''hex'')
      in if format \<notin> set formats
         then Inl (Error ''Supported formats are `hex` and `buffer`'')
         else
           (case keys of
              Val k \<Rightarrow>
                (let pubKey = public_marshal P k
                 in Inr (if format = ''buffer'' then Buf pubKey
                         else Str (toString_hex pubKey)))
            | Undefined \<Rightarrow> Inl (TypeError ''Cannot read properties of undefined'')
            | Null \<Rightarrow> Inl (TypeError ''Cannot read properties of null'')))"

section \<open>A small library instance for evaluation\<close>

text \<open>
  To evaluate the definitions on concrete inputs the libraries need an instance. This one
  is a stand-in with the same interface, not secp256k1: a key pair is its private bytes,
  the public key adds one to every byte, a signature is the public key followed by the
  message, and strings are coded one byte per character.
\<close>

definition demo :: "(bytes, bytes) platform" where
  "demo =
     \<lparr>pair_bytes = (\<lambda>k. k),
      unmarshalPrivateKey = (\<lambda>b. if b = [] then Inl (Error ''Invalid private key'') else Inr b),
      unmarshal = (\<lambda>b. if b = [] then Inl (Error ''Invalid private key'') else Inr b),
      unmarshalPubKey = (\<lambda>b. if b = [] then Inl (Error ''Invalid public key'') else Inr b),
      marshal = (\<lambda>k. k),
      public_marshal = map (\<lambda>x. x + 1),
      sign = (\<lambda>k d. Inr (map (\<lambda>x. x + 1) k @ d)),
      verify = (\<lambda>p d s. if length s < length p then Inl (Error ''Signature too short'')
                         else Inr (s = p @ d)),
      utf8_bytes = map (\<lambda>c. of_nat (of_char c)),
      utf8_string = map (\<lambda>b. char_of (unat b))\<rparr>"

text \<open>A storage that only counts how often it is accessed.\<close>

definition counting :: "nat storage" where
  "counting =
     \<lparr>storage_get = (\<lambda>k n. (Inr Undefined, Suc n)),
      storage_put = (\<lambda>k v n. (Inr (), Suc n))\<rparr>"

text \<open>
  The composed storage holds the value \<open>v\<close> under the key \<open>k\<close>: the persistent tier
  has it, and the cache tier has it or has nothing under \<open>k\<close>.
\<close>

definition holds :: "string \<Rightarrow> bytes \<Rightarrow> composed \<Rightarrow> bool" where
  "holds k v st \<longleftrightarrow>
     map_of (persistent_tier st) k = Some v \<and>
     (lru_lookup (cache_tier st) k = None \<or> lru_lookup (cache_tier st) k = Some v)"

text \<open>A storage whose \<open>get\<close> always throws, as a store on a missing path does.\<close>

definition failing :: "unit storage" where
  "failing =
     \<lparr>storage_get = (\<lambda>k u. (Inl (Error ''ENOENT: no such file or directory''), u)),
      storage_put = (\<lambda>k v u. (Inl (Error ''ENOENT: no such file or directory''), u))\<rparr>"

text \<open>
  The invariant of the verification cache: every entry stands under a signature with
  which its public key and data verify, and the triple is one of the calls in \<open>S\<close>.
\<close>

definition verified_entries :: "('k, 'p) platform \<Rightarrow> call set \<Rightarrow> vcache \<Rightarrow> bool" where
  "verified_entries P S c =
     (\<forall>(s, e) \<in> set (items c).
        (s, publicKey e, data e) \<in> S \<and> verifySignature P s (publicKey e) (data e) = Inr True)"

section \<open>Hex coding, the LRU container and the cache invariant\<close>

lemma hex_val_hex_digit: "n < 16 \<Longrightarrow> hex_val (hex_digit n) = Some n"
proof -
  have "\<forall>n\<in>set [0..<16]. hex_val (hex_digit n) = Some n"
    by code_simp
  then show "n < 16 \<Longrightarrow> hex_val (hex_digit n) = Some n" by simp
qed

lemma from_hex_byte_hex: "from_hex (byte_hex b @ cs) = b # from_hex cs"
proof -
  have "unat b < 256" using unsigned_less [of b] by simp
  then have "unat b div 16 < 16" by simp
  then show ?thesis
    by (simp add: byte_hex_def hex_val_hex_digit)
qed

lemma from_hex_toString_hex: "from_hex (toString_hex bs) = bs"
  by (induction bs) (simp_all add: toString_hex_def from_hex_byte_hex)

lemma toString_hex_Nil: "toString_hex bs = [] \<longleftrightarrow> bs = []"
  by (cases bs) (simp_all add: toString_hex_def byte_hex_def)


lemma verifySignature_Inr:
  "verifySignature P s pk d = Inr b \<Longrightarrow> truthy_str s \<and> truthy_str pk \<and> truthy_data d"
  by (cases s; cases pk; cases d) (simp_all add: verifySignature_def split: if_splits)

lemma map_of_filter_other: "k' \<noteq> k \<Longrightarrow> map_of (filter (\<lambda>p. fst p \<noteq> k) xs) k' = map_of xs k'"
  by (induction xs) auto

lemma lru_get_miss: "lru_lookup c k = None \<Longrightarrow> lru_get k c = (None, c)"
  by (simp add: lru_get_def lru_lookup_def)

lemma lru_get_fst: "fst (lru_get k c) = lru_lookup c k"
  by (simp add: lru_get_def lru_lookup_def split: option.splits)

lemma lru_get_lookup: "lru_lookup (snd (lru_get k c)) = lru_lookup c"
proof (rule ext)
  fix k'
  show "lru_lookup (snd (lru_get k c)) k' = lru_lookup c k'"
    by (cases "k' = k")
       (auto simp: lru_get_def lru_lookup_def map_of_filter_other split: option.splits)
qed

lemma lru_get_capacity: "capacity (snd (lru_get k c)) = capacity c"
  by (simp add: lru_get_def split: option.splits)

lemma lru_get_items: "set (items (snd (lru_get k c))) \<subseteq> set (items c)"
  by (auto simp: lru_get_def split: option.splits dest: map_of_SomeD)

lemma lru_put_items: "set (items (lru_put k v c)) \<subseteq> insert (k, v) (set (items c))"
  by (auto simp: lru_put_def dest!: in_set_takeD)

lemma verified_entries_subset:
  "verified_entries P S c \<Longrightarrow> set (items c') \<subseteq> set (items c) \<Longrightarrow> verified_entries P S c'"
  by (auto simp: verified_entries_def)

lemma verified_entries_put:
  assumes "verified_entries P S c" and "(s, pk, d) \<in> S" and "verifySignature P s pk d = Inr True"
  shows "verified_entries P S (lru_put s \<lparr>publicKey = pk, data = d\<rparr> c)"
  using assms lru_put_items [of s "\<lparr>publicKey = pk, data = d\<rparr>" c]
  by (fastforce simp: verified_entries_def)

lemma verifyMessage_verified_entries:
  assumes "verified_entries P S c" and "(s, pk, d) \<in> S"
  shows "verified_entries P S (snd (verifyMessage P c s pk d))"
proof (cases "lru_lookup c s")
  case None
  then have g: "lru_get s c = (None, c)" by (rule lru_get_miss)
  show ?thesis
  proof (cases "verifySignature P s pk d")
    case (Inl e)
    with g assms show ?thesis by (simp add: verifyMessage_def)
  next
    case (Inr b)
    with g assms verified_entries_put [OF assms(1) assms(2)] show ?thesis
      by (cases b) (simp_all add: verifyMessage_def)
  qed
next
  case (Some e)
  obtain r c1 where g: "lru_get s c = (r, c1)" by (cases "lru_get s c")
  with Some have r: "r = Some e" using lru_get_fst [of s c] by simp
  have "set (items c1) \<subseteq> set (items c)" using lru_get_items [of s c] g by simp
  then have "verified_entries P S c1" using assms(1) by (rule verified_entries_subset [rotated])
  then show ?thesis using g r by (simp add: verifyMessage_def)
qed

lemma run_verified_entries:
  "verified_entries P S c \<Longrightarrow> set calls \<subseteq> S \<Longrightarrow> verified_entries P S (run P calls c)"
proof (induction calls arbitrary: c)
  case Nil
  then show ?case by simp
next
  case (Cons x calls)
  obtain s pk d where x: "x = (s, pk, d)" by (cases x)
  with Cons.prems have "(s, pk, d) \<in> S" by simp
  then have "verified_entries P S (snd (verifyMessage P c s pk d))"
    using Cons.prems(1) by (rule verifyMessage_verified_entries [rotated])
  with Cons x show ?case by simp
qed

lemma verified_entries_empty: "verified_entries P S (LRUStorage n)"
  by (simp add: verified_entries_def LRUStorage_def)

lemma verified_entries_lookup:
  "verified_entries P S c \<Longrightarrow> lru_lookup c s = Some e \<Longrightarrow>
     (s, publicKey e, data e) \<in> S \<and> verifySignature P s (publicKey e) (data e) = Inr True"
  by (auto simp: verified_entries_def lru_lookup_def dest!: map_of_SomeD)


lemma map_of_take_Some: "map_of (take n xs) k = Some v \<Longrightarrow> map_of xs k = Some v"
proof (induction xs arbitrary: n)
  case Nil
  then show ?case by simp
next
  case (Cons x xs)
  then show ?case by (cases n) (auto split: if_splits)
qed

lemma lru_put_lookup:
  "lru_lookup (lru_put k v c) k' = Some v' \<Longrightarrow> (k' = k \<and> v' = v) \<or> lru_lookup c k' = Some v'"
proof -
  assume "lru_lookup (lru_put k v c) k' = Some v'"
  then have "map_of ((k, v) # filter (\<lambda>p. fst p \<noteq> k) (items c)) k' = Some v'"
    by (auto simp: lru_lookup_def lru_put_def dest: map_of_take_Some)
  then show ?thesis
    by (cases "k' = k") (simp_all add: lru_lookup_def map_of_filter_other)
qed

lemma verifyMessage_miss:
  "lru_lookup c s = None \<Longrightarrow>
     verifyMessage P c s pk d =
       (case verifySignature P s pk d of
          Inl e \<Rightarrow> (Inl e, c)
        | Inr verified \<Rightarrow>
            if verified then (Inr True, lru_put s \<lparr>publicKey = pk, data = d\<rparr> c)
            else (Inr False, c))"
  by (simp add: verifyMessage_def lru_get_miss)

lemma verifyMessage_hit:
  "lru_lookup c s = Some e \<Longrightarrow>
     verifyMessage P c s pk d =
       (if publicKey e = pk then compare P (data e) d else Inr False, snd (lru_get s c))"
  by (simp add: verifyMessage_def lru_get_def lru_lookup_def)

section \<open>The verification cache holds only verified triples\<close>

text \<open>
  Claim C1. Start from the empty cache of line 54 and make any sequence of
  \<open>verifyMessage\<close> calls. Whenever the cache then holds an entry under a signature, the
  triple of that signature with the entry's public key and data is one of the calls made,
  and \<open>verifySignature\<close> returns true on it. For a single call on any cache: on a miss
  where \<open>verifySignature\<close> does not return true the cache is left as it was; and a
  binding that is in the cache after the call but was not there before is the binding of
  the call's signature to the call's public key and data, and \<open>verifySignature\<close>
  returned true on them.
\<close>

theorem verifiedCache_only_verified:
  "(lru_lookup (run P calls verifiedCache) s = Some e \<longrightarrow>
      (s, publicKey e, data e) \<in> set calls \<and>
      verifySignature P s (publicKey e) (data e) = Inr True) \<and>
   (lru_lookup c s' = None \<and> verifySignature P s' pk d \<noteq> Inr True \<longrightarrow>
      snd (verifyMessage P c s' pk d) = c) \<and>
   (lru_lookup (snd (verifyMessage P c s' pk d)) k = Some e' \<and> lru_lookup c k \<noteq> Some e' \<longrightarrow>
      k = s' \<and> e' = \<lparr>publicKey = pk, data = d\<rparr> \<and> verifySignature P s' pk d = Inr True)"
proof (intro conjI impI)
  assume a: "lru_lookup (run P calls verifiedCache) s = Some e"
  have "verified_entries P (set calls) (run P calls verifiedCache)"
    unfolding verifiedCache_def
    by (rule run_verified_entries [OF verified_entries_empty]) simp
  then have both: "(s, publicKey e, data e) \<in> set calls \<and>
      verifySignature P s (publicKey e) (data e) = Inr True"
    using a by (rule verified_entries_lookup)
  from both show "(s, publicKey e, data e) \<in> set calls" by simp
  from both show "verifySignature P s (publicKey e) (data e) = Inr True" by simp
next
  assume "lru_lookup c s' = None \<and> verifySignature P s' pk d \<noteq> Inr True"
  then show "snd (verifyMessage P c s' pk d) = c"
    by (auto simp: verifyMessage_miss split: sum.splits)
next
  assume a: "lru_lookup (snd (verifyMessage P c s' pk d)) k = Some e' \<and> lru_lookup c k \<noteq> Some e'"
  have miss: "lru_lookup c s' = None"
  proof (rule ccontr)
    assume "lru_lookup c s' \<noteq> None"
    then obtain e0 where "lru_lookup c s' = Some e0" by auto
    then have "lru_lookup (snd (verifyMessage P c s' pk d)) = lru_lookup c"
      by (simp add: verifyMessage_hit lru_get_lookup)
    with a show False by simp
  qed
  have ver: "verifySignature P s' pk d = Inr True"
  proof (rule ccontr)
    assume "verifySignature P s' pk d \<noteq> Inr True"
    with miss have "snd (verifyMessage P c s' pk d) = c"
      by (auto simp: verifyMessage_miss split: sum.splits)
    with a show False by simp
  qed
  with miss have "snd (verifyMessage P c s' pk d) = lru_put s' \<lparr>publicKey = pk, data = d\<rparr> c"
    by (simp add: verifyMessage_miss)
  with a have "(k = s' \<and> e' = \<lparr>publicKey = pk, data = d\<rparr>) \<or> lru_lookup c k = Some e'"
    using lru_put_lookup [of s' "\<lparr>publicKey = pk, data = d\<rparr>" c k e'] by simp
  with a have ke: "k = s' \<and> e' = \<lparr>publicKey = pk, data = d\<rparr>" by simp
  from ke show "k = s'" by simp
  from ke show "e' = \<lparr>publicKey = pk, data = d\<rparr>" by simp
  from ver show "verifySignature P s' pk d = Inr True" .
qed

text \<open>
  With the stand-in library the signature \<open>020361\<close> verifies for the public key
  \<open>0203\<close> and the data \<open>a\<close>, and \<open>ff\<close> does not.
\<close>

theorem verifiedCache_only_verified_witness:
  "lru_lookup (run demo [(Val ''020361'', Val ''0203'', Val (Str ''a''))] verifiedCache)
       (Val ''020361'') = Some \<lparr>publicKey = Val ''0203'', data = Val (Str ''a'')\<rparr> \<and>
   (Val ''020361'', Val ''0203'', Val (Str ''a'')) \<in>
       set [(Val ''020361'', Val ''0203'', Val (Str ''a''))] \<and>
   verifySignature demo (Val ''020361'') (Val ''0203'') (Val (Str ''a'')) = Inr True \<and>
   lru_lookup verifiedCache (Val ''ff'') = None \<and>
   verifySignature demo (Val ''ff'') (Val ''0203'') (Val (Str ''a'')) \<noteq> Inr True \<and>
   snd (verifyMessage demo verifiedCache (Val ''ff'') (Val ''0203'') (Val (Str ''a''))) =
       verifiedCache \<and>
   lru_lookup
       (snd (verifyMessage demo verifiedCache (Val ''020361'') (Val ''0203'') (Val (Str ''a''))))
       (Val ''020361'') = Some \<lparr>publicKey = Val ''0203'', data = Val (Str ''a'')\<rparr> \<and>
   lru_lookup verifiedCache (Val ''020361'') \<noteq>
       Some \<lparr>publicKey = Val ''0203'', data = Val (Str ''a'')\<rparr>"
proof -
  let ?s = "Val ''020361'' :: string js"
  let ?pk = "Val ''0203'' :: string js"
  let ?d = "Val (Str ''a'')"
  let ?e = "\<lparr>publicKey = ?pk, data = ?d\<rparr>"
  have h1: "lru_lookup (run demo [(?s, ?pk, ?d)] verifiedCache) ?s = Some ?e"
    by code_simp
  have h2: "lru_lookup verifiedCache (Val ''ff'') = None \<and>
      verifySignature demo (Val ''ff'') ?pk ?d \<noteq> Inr True"
    by code_simp
  have h3: "lru_lookup (snd (verifyMessage demo verifiedCache ?s ?pk ?d)) ?s = Some ?e \<and>
      lru_lookup verifiedCache ?s \<noteq> Some ?e"
    by code_simp
  from h1 h2 h3
    verifiedCache_only_verified
      [of demo "[(?s, ?pk, ?d)]" ?s ?e verifiedCache "Val ''ff''" ?pk ?d ?s ?e]
    verifiedCache_only_verified
      [of demo "[(?s, ?pk, ?d)]" ?s ?e verifiedCache ?s ?pk ?d ?s ?e]
  show ?thesis by simp
qed

section \<open>A cache hit compares instead of verifying\<close>

text \<open>
  Claim C2. On a cache hit \<open>verifyMessage\<close> should return true exactly when the cached
  public key and data equal the supplied ones. The source does so when the supplied data
  is a string, or when both data are Buffers. When the supplied data is a Buffer and the
  cached data is a string, line 69 passes the string to \<open>Buffer.compare\<close>, which throws:
  the call returns neither true nor false. Here the first call caches the signature with
  the string \<open>a\<close>; the second call supplies the same signature and public key with the
  same data as the Buffer of the byte 97. It throws, although \<open>verifySignature\<close> accepts
  these three arguments.
\<close>

theorem verifyMessage_hit_buffer_throws:
  "lru_lookup (run demo [(Val ''020361'', Val ''0203'', Val (Str ''a''))] verifiedCache)
       (Val ''020361'') = Some \<lparr>publicKey = Val ''0203'', data = Val (Str ''a'')\<rparr> \<and>
   fst (verifyMessage demo
          (run demo [(Val ''020361'', Val ''0203'', Val (Str ''a''))] verifiedCache)
          (Val ''020361'') (Val ''0203'') (Val (Buf [97]))) =
     Inl (TypeError ''The buf1 argument must be a Buffer'') \<and>
   verifySignature demo (Val ''020361'') (Val ''0203'') (Val (Buf [97])) = Inr True"
  by code_simp

section \<open>Verification returns a boolean\<close>

lemma compare_no_throw:
  "truthy_data cached \<Longrightarrow> truthy_data d \<Longrightarrow> \<not> isBuffer d \<or> isBuffer cached \<Longrightarrow>
     \<exists>b. compare P cached d = Inr b"
  by (cases cached; cases d)
     (auto split: payload.splits sum.splits elim!: truthy_payload.elims isBuffer.elims)

lemma verifySignature_falsy:
  "(\<not> truthy_str s \<longrightarrow> verifySignature P s pk d = Inl (Error ''No signature given'')) \<and>
   (truthy_str s \<and> \<not> truthy_str pk \<longrightarrow>
      verifySignature P s pk d = Inl (Error ''Given publicKey was undefined'')) \<and>
   (truthy_str s \<and> truthy_str pk \<and> \<not> truthy_data d \<longrightarrow>
      verifySignature P s pk d = Inl (Error ''Given input data was undefined''))"
  by (cases s; cases pk; cases d) (simp_all add: verifySignature_def)

lemma verification_truthy:
  "sg \<noteq> [] \<and> pk \<noteq> [] \<and> truthy_payload d \<longrightarrow>
     verifySignature P (Val sg) (Val pk) (Val d) =
        Inr (try_verify P sg pk (to_buffer P d)) \<and>
     ((\<exists>e. unmarshalPubKey P (from_hex pk) = Inl e) \<longrightarrow>
        verifySignature P (Val sg) (Val pk) (Val d) = Inr False) \<and>
     ((\<exists>p e. unmarshalPubKey P (from_hex pk) = Inr p \<and>
             verify P p (to_buffer P d) (from_hex sg) = Inl e) \<longrightarrow>
        verifySignature P (Val sg) (Val pk) (Val d) = Inr False) \<and>
     (lru_lookup (run P calls verifiedCache) (Val sg) = None \<longrightarrow>
        fst (verifyMessage P (run P calls verifiedCache) (Val sg) (Val pk) (Val d)) =
          Inr (try_verify P sg pk (to_buffer P d))) \<and>
     (lru_lookup (run P calls verifiedCache) (Val sg) = Some e \<and>
      (publicKey e \<noteq> Val pk \<or> \<not> isBuffer (Val d) \<or> isBuffer (data e)) \<longrightarrow>
        (\<exists>b. fst (verifyMessage P (run P calls verifiedCache) (Val sg) (Val pk) (Val d)) =
               Inr b))"
proof (intro impI)
  assume t: "sg \<noteq> [] \<and> pk \<noteq> [] \<and> truthy_payload d"
  let ?c = "run P calls verifiedCache"
  have vs: "verifySignature P (Val sg) (Val pk) (Val d) =
      Inr (try_verify P sg pk (to_buffer P d))"
    using t by (simp add: verifySignature_def)
  have e1: "(\<exists>e. unmarshalPubKey P (from_hex pk) = Inl e) \<longrightarrow>
      verifySignature P (Val sg) (Val pk) (Val d) = Inr False"
    by (auto simp: vs try_verify_def)
  have e2: "(\<exists>p e. unmarshalPubKey P (from_hex pk) = Inr p \<and>
             verify P p (to_buffer P d) (from_hex sg) = Inl e) \<longrightarrow>
      verifySignature P (Val sg) (Val pk) (Val d) = Inr False"
    by (auto simp: vs try_verify_def)
  have miss: "lru_lookup ?c (Val sg) = None \<longrightarrow>
      fst (verifyMessage P ?c (Val sg) (Val pk) (Val d)) =
        Inr (try_verify P sg pk (to_buffer P d))"
    by (simp add: verifyMessage_miss vs)
  have hit: "lru_lookup ?c (Val sg) = Some e \<and>
      (publicKey e \<noteq> Val pk \<or> \<not> isBuffer (Val d) \<or> isBuffer (data e)) \<longrightarrow>
        (\<exists>b. fst (verifyMessage P ?c (Val sg) (Val pk) (Val d)) = Inr b)"
  proof
    assume a: "lru_lookup ?c (Val sg) = Some e \<and>
      (publicKey e \<noteq> Val pk \<or> \<not> isBuffer (Val d) \<or> isBuffer (data e))"
    have "verified_entries P (set calls) ?c"
      unfolding verifiedCache_def
      by (rule run_verified_entries [OF verified_entries_empty]) simp
    with a have "verifySignature P (Val sg) (publicKey e) (data e) = Inr True"
      using verified_entries_lookup by blast
    then have td: "truthy_data (data e)" using verifySignature_Inr by blast
    show "\<exists>b. fst (verifyMessage P ?c (Val sg) (Val pk) (Val d)) = Inr b"
    proof (cases "publicKey e = Val pk")
      case False
      with a show ?thesis by (auto simp: verifyMessage_hit)
    next
      case True
      with a have "\<not> isBuffer (Val d) \<or> isBuffer (data e)" by simp
      with td t have "\<exists>b. compare P (data e) (Val d) = Inr b"
        by (intro compare_no_throw) simp_all
      with a True show ?thesis by (auto simp: verifyMessage_hit)
    qed
  qed
  from vs e1 e2 miss hit show "verifySignature P (Val sg) (Val pk) (Val d) =
        Inr (try_verify P sg pk (to_buffer P d)) \<and>
     ((\<exists>e. unmarshalPubKey P (from_hex pk) = Inl e) \<longrightarrow>
        verifySignature P (Val sg) (Val pk) (Val d) = Inr False) \<and>
     ((\<exists>p e. unmarshalPubKey P (from_hex pk) = Inr p \<and>
             verify P p (to_buffer P d) (from_hex sg) = Inl e) \<longrightarrow>
        verifySignature P (Val sg) (Val pk) (Val d) = Inr False) \<and>
     (lru_lookup (run P calls verifiedCache) (Val sg) = None \<longrightarrow>
        fst (verifyMessage P (run P calls verifiedCache) (Val sg) (Val pk) (Val d)) =
          Inr (try_verify P sg pk (to_buffer P d))) \<and>
     (lru_lookup (run P calls verifiedCache) (Val sg) = Some e \<and>
      (publicKey e \<noteq> Val pk \<or> \<not> isBuffer (Val d) \<or> isBuffer (data e)) \<longrightarrow>
        (\<exists>b. fst (verifyMessage P (run P calls verifiedCache) (Val sg) (Val pk) (Val d)) =
               Inr b))"
    by blast
qed

text \<open>
  Claim C3, as stated, at the empty string: it is not null, but lines 11-13 throw for
  every falsy signature, and \<open>verifyMessage\<close> lets the exception through.
\<close>

theorem empty_signature_throws:
  "verifySignature demo (Val '''') (Val ''0203'') (Val (Str ''a'')) =
     Inl (Error ''No signature given'') \<and>
   fst (verifyMessage demo verifiedCache (Val '''') (Val ''0203'') (Val (Str ''a''))) =
     Inl (Error ''No signature given'')"
  by code_simp

text \<open>
  Claim C3, for truthy arguments. Let the signature and the public key be non-empty
  strings and the data a non-empty string or a Buffer. Then \<open>verifySignature\<close> returns
  the boolean of its \<open>try\<close> block; an exception of \<open>unmarshalPubKey\<close> or of
  \<open>verify\<close> gives false. On a cache reached from the empty one, \<open>verifyMessage\<close>
  returns the same boolean on a miss, and on a hit it returns a boolean whenever the
  supplied public key differs from the cached one, or the supplied data is a string, or
  the cached data is a Buffer. When an argument is missing, null or empty, the guard of
  the first such argument throws its error.
\<close>

theorem verification_returns_boolean:
  "(sg \<noteq> [] \<and> pk \<noteq> [] \<and> truthy_payload d \<longrightarrow>
     verifySignature P (Val sg) (Val pk) (Val d) =
        Inr (try_verify P sg pk (to_buffer P d)) \<and>
     ((\<exists>e. unmarshalPubKey P (from_hex pk) = Inl e) \<longrightarrow>
        verifySignature P (Val sg) (Val pk) (Val d) = Inr False) \<and>
     ((\<exists>p e. unmarshalPubKey P (from_hex pk) = Inr p \<and>
             verify P p (to_buffer P d) (from_hex sg) = Inl e) \<longrightarrow>
        verifySignature P (Val sg) (Val pk) (Val d) = Inr False) \<and>
     (lru_lookup (run P calls verifiedCache) (Val sg) = None \<longrightarrow>
        fst (verifyMessage P (run P calls verifiedCache) (Val sg) (Val pk) (Val d)) =
          Inr (try_verify P sg pk (to_buffer P d))) \<and>
     (lru_lookup (run P calls verifiedCache) (Val sg) = Some e \<and>
      (publicKey e \<noteq> Val pk \<or> \<not> isBuffer (Val d) \<or> isBuffer (data e)) \<longrightarrow>
        (\<exists>b. fst (verifyMessage P (run P calls verifiedCache) (Val sg) (Val pk) (Val d)) =
               Inr b))) \<and>
   (\<not> truthy_str s0 \<longrightarrow>
      verifySignature P s0 pk0 d0 = Inl (Error ''No signature given'')) \<and>
   (truthy_str s0 \<and> \<not> truthy_str pk0 \<longrightarrow>
      verifySignature P s0 pk0 d0 = Inl (Error ''Given publicKey was undefined'')) \<and>
   (truthy_str s0 \<and> truthy_str pk0 \<and> \<not> truthy_data d0 \<longrightarrow>
      verifySignature P s0 pk0 d0 = Inl (Error ''Given input data was undefined''))"
  by (rule conjI [OF verification_truthy verifySignature_falsy])

theorem verification_returns_boolean_witness:
  "''020361'' \<noteq> [] \<and> ''0203'' \<noteq> [] \<and> truthy_payload (Str ''a'') \<and>
   verifySignature demo (Val ''020361'') (Val ''0203'') (Val (Str ''a'')) = Inr True \<and>
   lru_lookup (run demo [] verifiedCache) (Val ''020361'') = None \<and>
   fst (verifyMessage demo (run demo [] verifiedCache)
          (Val ''020361'') (Val ''0203'') (Val (Str ''a''))) = Inr True \<and>
   unmarshalPubKey demo (from_hex ''zz'') = Inl (Error ''Invalid public key'') \<and>
   verifySignature demo (Val ''020361'') (Val ''zz'') (Val (Str ''a'')) = Inr False \<and>
   unmarshalPubKey demo (from_hex ''0203'') = Inr [2, 3] \<and>
   verify demo [2, 3] (to_buffer demo (Str ''a'')) (from_hex ''02'') =
      Inl (Error ''Signature too short'') \<and>
   verifySignature demo (Val ''02'') (Val ''0203'') (Val (Str ''a'')) = Inr False \<and>
   lru_lookup (run demo [(Val ''020361'', Val ''0203'', Val (Str ''a''))] verifiedCache)
      (Val ''020361'') = Some \<lparr>publicKey = Val ''0203'', data = Val (Str ''a'')\<rparr> \<and>
   \<not> truthy_str (Val '''') \<and>
   verifySignature demo (Val '''') (Val ''0203'') (Val (Str ''a'')) =
      Inl (Error ''No signature given'') \<and>
   truthy_str (Val ''020361'') \<and> \<not> truthy_str Null \<and>
   verifySignature demo (Val ''020361'') Null (Val (Str ''a'')) =
      Inl (Error ''Given publicKey was undefined'') \<and>
   truthy_str (Val ''0203'') \<and> \<not> truthy_data Undefined \<and>
   verifySignature demo (Val ''020361'') (Val ''0203'') Undefined =
      Inl (Error ''Given input data was undefined'') \<and>
   \<not> isBuffer (Val (Str ''a'')) \<and>
   (\<exists>b. fst (verifyMessage demo
               (run demo [(Val ''020361'', Val ''0203'', Val (Str ''a''))] verifiedCache)
               (Val ''020361'') (Val ''0203'') (Val (Str ''a''))) = Inr b)"
proof -
  let ?call = "(Val ''020361'', Val ''0203'', Val (Str ''a'')) :: call"
  let ?e = "\<lparr>publicKey = Val ''0203'', data = Val (Str ''a'')\<rparr>"
  have t: "''020361'' \<noteq> [] \<and> ''0203'' \<noteq> [] \<and> truthy_payload (Str ''a'')"
    by simp
  have t2: "''020361'' \<noteq> [] \<and> ''zz'' \<noteq> [] \<and> truthy_payload (Str ''a'')"
    by simp
  have t3: "''02'' \<noteq> [] \<and> ''0203'' \<noteq> [] \<and> truthy_payload (Str ''a'')"
    by simp
  have v: "try_verify demo ''020361'' ''0203'' (to_buffer demo (Str ''a'')) = True"
    by code_simp
  have m: "lru_lookup (run demo [] verifiedCache) (Val ''020361'') = None"
    by code_simp
  have p: "unmarshalPubKey demo (from_hex ''zz'') = Inl (Error ''Invalid public key'')"
    by code_simp
  have q: "unmarshalPubKey demo (from_hex ''0203'') = Inr [2, 3]"
    by code_simp
  have r: "verify demo [2, 3] (to_buffer demo (Str ''a'')) (from_hex ''02'') =
      Inl (Error ''Signature too short'')"
    by code_simp
  have h: "lru_lookup (run demo [?call] verifiedCache) (Val ''020361'') = Some ?e"
    by code_simp
  have nb: "\<not> isBuffer (Val (Str ''a''))" by simp
  note a1 = verification_returns_boolean [of "''020361''" "''0203''" "Str ''a''" demo "[]" ?e, THEN conjunct1, THEN mp, OF t]
  note a2 = verification_returns_boolean [of "''020361''" "''zz''" "Str ''a''" demo "[]" ?e, THEN conjunct1, THEN mp, OF t2]
  note a3 = verification_returns_boolean [of "''02''" "''0203''" "Str ''a''" demo "[]" ?e, THEN conjunct1, THEN mp, OF t3]
  note a4 = verification_returns_boolean [of "''020361''" "''0203''" "Str ''a''" demo "[?call]" ?e, THEN conjunct1, THEN mp, OF t]
  have c1: "verifySignature demo (Val ''020361'') (Val ''0203'') (Val (Str ''a'')) = Inr True"
    using a1 v by simp
  have c2: "fst (verifyMessage demo (run demo [] verifiedCache)
          (Val ''020361'') (Val ''0203'') (Val (Str ''a''))) = Inr True"
    using a1 v m by simp
  have c3: "verifySignature demo (Val ''020361'') (Val ''zz'') (Val (Str ''a'')) = Inr False"
    using a2 p by blast
  have c4: "verifySignature demo (Val ''02'') (Val ''0203'') (Val (Str ''a'')) = Inr False"
    using a3 q r by blast
  have c5: "\<exists>b. fst (verifyMessage demo (run demo [?call] verifiedCache)
               (Val ''020361'') (Val ''0203'') (Val (Str ''a''))) = Inr b"
    using a4 h nb by blast
  have f1: "\<not> truthy_str (Val '''')" by simp
  have f2: "truthy_str (Val ''020361'') \<and> \<not> truthy_str Null" by simp
  have f3: "truthy_str (Val ''020361'') \<and> truthy_str (Val ''0203'') \<and> \<not> truthy_data Undefined"
    by simp
  note b1 = verification_returns_boolean
    [of "''020361''" "''0203''" "Str ''a''" demo "[]" ?e "Val ''''" "Val ''0203''" "Val (Str ''a'')",
     THEN conjunct2, THEN conjunct1, THEN mp, OF f1]
  note b2 = verification_returns_boolean
    [of "''020361''" "''0203''" "Str ''a''" demo "[]" ?e "Val ''020361''" Null "Val (Str ''a'')",
     THEN conjunct2, THEN conjunct2, THEN conjunct1, THEN mp, OF f2]
  note b3 = verification_returns_boolean
    [of "''020361''" "''0203''" "Str ''a''" demo "[]" ?e "Val ''020361''" "Val ''0203''" Undefined,
     THEN conjunct2, THEN conjunct2, THEN conjunct2, THEN mp, OF f3]
  from t c1 m c2 p c3 q r c4 h nb c5 f1 f2 f3 b1 b2 b3 show ?thesis by blast
qed

section \<open>Signing and verifying\<close>

lemma getPublic_hex: "getPublic P (Val k) Undefined = Inr (Str (toString_hex (public_marshal P k)))"
  by (simp add: getPublic_def formats_def)

text \<open>
  Claim C4. Let the data be truthy (every non-empty string and every Buffer is), and let
  the library sign it with the key \<open>k\<close> to a non-empty signature that its \<open>verify\<close>
  accepts for the public key of \<open>k\<close>. Then \<open>signMessage\<close> returns the hex form of that
  signature, \<open>getPublic\<close> returns the hex form of the public key, and
  \<open>verifySignature\<close> on the two hex strings and the same data returns true.
\<close>

theorem sign_verify_round_trip:
  "truthy_payload d \<and>
   sign P k (to_buffer P d) = Inr sg \<and> sg \<noteq> [] \<and>
   public_marshal P k \<noteq> [] \<and>
   unmarshalPubKey P (public_marshal P k) = Inr p \<and>
   verify P p (to_buffer P d) sg = Inr True \<longrightarrow>
     signMessage P (Val k) (Val d) = Inr (toString_hex sg) \<and>
     getPublic P (Val k) Undefined = Inr (Str (toString_hex (public_marshal P k))) \<and>
     verifySignature P (Val (toString_hex sg)) (Val (toString_hex (public_marshal P k))) (Val d)
       = Inr True"
  by (simp add: signMessage_def getPublic_hex verifySignature_def try_verify_def
        from_hex_toString_hex toString_hex_Nil)

theorem sign_verify_round_trip_witness:
  "truthy_payload (Str ''a'') \<and>
   sign demo [1, 2] (to_buffer demo (Str ''a'')) = Inr [2, 3, 97] \<and> [2, 3, 97 :: byte] \<noteq> [] \<and>
   public_marshal demo [1, 2] \<noteq> [] \<and>
   unmarshalPubKey demo (public_marshal demo [1, 2]) = Inr [2, 3] \<and>
   verify demo [2, 3] (to_buffer demo (Str ''a'')) [2, 3, 97] = Inr True \<and>
   signMessage demo (Val [1, 2]) (Val (Str ''a'')) = Inr ''020361'' \<and>
   getPublic demo (Val [1, 2]) Undefined = Inr (Str ''0203'') \<and>
   verifySignature demo (Val ''020361'') (Val ''0203'') (Val (Str ''a'')) = Inr True"
proof -
  have h: "truthy_payload (Str ''a'') \<and>
     sign demo [1, 2] (to_buffer demo (Str ''a'')) = Inr [2, 3, 97] \<and> [2, 3, 97 :: byte] \<noteq> [] \<and>
     public_marshal demo [1, 2] \<noteq> [] \<and>
     unmarshalPubKey demo (public_marshal demo [1, 2]) = Inr [2, 3] \<and>
     verify demo [2, 3] (to_buffer demo (Str ''a'')) [2, 3, 97] = Inr True"
    by code_simp
  have e1: "toString_hex [2, 3, 97] = ''020361''" by code_simp
  have e2: "toString_hex (public_marshal demo [1, 2]) = ''0203''" by code_simp
  from h e1 e2 sign_verify_round_trip [of "Str ''a''" demo "[1, 2]" "[2, 3, 97]" "[2, 3]"]
  show ?thesis by simp
qed

section \<open>The composed storage returns what was put\<close>

lemma lru_put_lookup_same:
  "lru_lookup (lru_put k v c) k = None \<or> lru_lookup (lru_put k v c) k = Some v"
  by (cases "capacity c") (simp_all add: lru_lookup_def lru_put_def)

lemma composed_put_holds: "holds k v (snd (composed_put k v st))"
  using lru_put_lookup_same [of k v "cache_tier st"]
  by (simp add: holds_def composed_put_def)

lemma composed_get_holds:
  assumes "holds k v st"
  shows "fst (composed_get k st) = Inr (Val v) \<and> holds k v (snd (composed_get k st))"
proof (cases "lru_lookup (cache_tier st) k")
  case None
  then have "lru_get k (cache_tier st) = (None, cache_tier st)" by (rule lru_get_miss)
  with assms lru_put_lookup_same [of k v "cache_tier st"] show ?thesis
    by (simp add: composed_get_def holds_def)
next
  case (Some w)
  with assms have w: "w = v" by (simp add: holds_def)
  obtain r c1 where g: "lru_get k (cache_tier st) = (r, c1)" by (cases "lru_get k (cache_tier st)")
  with Some have r: "r = Some w" using lru_get_fst [of k "cache_tier st"] by simp
  have "lru_lookup c1 = lru_lookup (cache_tier st)"
    using lru_get_lookup [of k "cache_tier st"] g by simp
  with assms g r w show ?thesis
    by (simp add: composed_get_def holds_def)
qed

lemma getKey_holds:
  assumes "i \<noteq> []" and "holds (''private_'' @ i) v st" and "unmarshal P v = Inr keys"
  shows "fst (getKey ComposedStorage P (Val i) st) = Inr (Val keys) \<and>
         holds (''private_'' @ i) v (snd (getKey ComposedStorage P (Val i) st))"
proof -
  obtain r st1 where g: "composed_get (''private_'' @ i) st = (r, st1)"
    by (cases "composed_get (''private_'' @ i) st")
  with composed_get_holds [OF assms(2)] have "r = Inr (Val v)" and "holds (''private_'' @ i) v st1"
    by simp_all
  with assms g show ?thesis
    by (simp add: getKey_def ComposedStorage_def)
qed

lemma createKey_put:
  "i \<noteq> [] \<Longrightarrow> unmarshalPrivateKey P (pair_bytes P pair) = Inr keys \<Longrightarrow>
     createKey S P (Val i) pair st =
       (case storage_put S (''private_'' @ i) (marshal P keys) st of
          (Inl e, st1) \<Rightarrow> (Inl e, st1)
        | (Inr u, st1) \<Rightarrow> (Inr keys, st1))"
  by (simp add: createKey_def addKey_def)

section \<open>Creating and reading back a key\<close>

text \<open>
  Claim C5. Let the id be a non-empty string, let \<open>unmarshalPrivateKey\<close> turn the
  generated pair into the handle \<open>keys\<close>, and let the library's \<open>unmarshal\<close> rebuild
  \<open>keys\<close> from its private-key bytes. On every storage, \<open>createKey\<close> makes exactly one
  write, of the private-key bytes under \<open>"private_" + id\<close>, and returns \<open>keys\<close> when the
  write succeeds. On the composed storage the persistent tier afterwards differs from the
  one before at that key only; \<open>getKey\<close> then returns \<open>keys\<close>, rebuilt by \<open>unmarshal\<close>
  from the stored bytes, and a second \<open>getKey\<close> returns the same.
\<close>

theorem createKey_then_getKey:
  "i \<noteq> [] \<and> unmarshalPrivateKey P (pair_bytes P pair) = Inr keys \<and>
   unmarshal P (marshal P keys) = Inr keys \<longrightarrow>
     createKey S P (Val i) pair s0 =
       (case storage_put S (''private_'' @ i) (marshal P keys) s0 of
          (Inl e, s1) \<Rightarrow> (Inl e, s1)
        | (Inr u, s1) \<Rightarrow> (Inr keys, s1)) \<and>
     (let (r, st1) = createKey ComposedStorage P (Val i) pair st;
          (g1, st2) = getKey ComposedStorage P (Val i) st1;
          (g2, st3) = getKey ComposedStorage P (Val i) st2
      in r = Inr keys \<and>
         map_of (persistent_tier st1) =
           (map_of (persistent_tier st))(''private_'' @ i \<mapsto> marshal P keys) \<and>
         g1 = Inr (Val keys) \<and> g2 = g1)"
proof (intro impI conjI)
  assume a: "i \<noteq> [] \<and> unmarshalPrivateKey P (pair_bytes P pair) = Inr keys \<and>
     unmarshal P (marshal P keys) = Inr keys"
  let ?k = "''private_'' @ i"
  let ?v = "marshal P keys"
  from a show "createKey S P (Val i) pair s0 =
       (case storage_put S ?k ?v s0 of
          (Inl e, s1) \<Rightarrow> (Inl e, s1)
        | (Inr u, s1) \<Rightarrow> (Inr keys, s1))"
    by (simp add: createKey_put)
  let ?st1 = "snd (composed_put ?k ?v st)"
  have c: "createKey ComposedStorage P (Val i) pair st = (Inr keys, ?st1)"
    using a by (simp add: createKey_put ComposedStorage_def composed_put_def)
  have h1: "holds ?k ?v ?st1" by (rule composed_put_holds)
  have p: "map_of (persistent_tier ?st1) = (map_of (persistent_tier st))(?k \<mapsto> ?v)"
    by (rule ext) (simp add: composed_put_def map_of_filter_other)
  obtain g1 st2 where g1: "getKey ComposedStorage P (Val i) ?st1 = (g1, st2)"
    by (cases "getKey ComposedStorage P (Val i) ?st1")
  from a h1 have "fst (getKey ComposedStorage P (Val i) ?st1) = Inr (Val keys) \<and>
      holds ?k ?v (snd (getKey ComposedStorage P (Val i) ?st1))"
    by (intro getKey_holds) simp_all
  with g1 have r1: "g1 = Inr (Val keys)" and h2: "holds ?k ?v st2" by simp_all
  from a h2 have "fst (getKey ComposedStorage P (Val i) st2) = Inr (Val keys)"
    using getKey_holds [of i ?v st2 P keys] by simp
  with c g1 r1 p show "let (r, st1) = createKey ComposedStorage P (Val i) pair st;
          (g1, st2) = getKey ComposedStorage P (Val i) st1;
          (g2, st3) = getKey ComposedStorage P (Val i) st2
      in r = Inr keys \<and>
         map_of (persistent_tier st1) =
           (map_of (persistent_tier st))(''private_'' @ i \<mapsto> marshal P keys) \<and>
         g1 = Inr (Val keys) \<and> g2 = g1"
    by (simp add: split_beta)
qed

theorem createKey_then_getKey_witness:
  "''key1'' \<noteq> [] \<and> unmarshalPrivateKey demo (pair_bytes demo [1, 2]) = Inr [1, 2] \<and>
   unmarshal demo (marshal demo [1, 2]) = Inr [1, 2] \<and>
   createKey counting demo (Val ''key1'') [1, 2] 0 = (Inr [1, 2], 1) \<and>
   fst (createKey ComposedStorage demo (Val ''key1'') [1, 2] default_storage) = Inr [1, 2] \<and>
   map_of (persistent_tier
      (snd (createKey ComposedStorage demo (Val ''key1'') [1, 2] default_storage))) =
     (map_of (persistent_tier default_storage))(''private_'' @ ''key1'' \<mapsto> marshal demo [1, 2]) \<and>
   fst (getKey ComposedStorage demo (Val ''key1'')
      (snd (createKey ComposedStorage demo (Val ''key1'') [1, 2] default_storage))) =
     Inr (Val [1, 2]) \<and>
   fst (getKey ComposedStorage demo (Val ''key1'')
      (snd (getKey ComposedStorage demo (Val ''key1'')
         (snd (createKey ComposedStorage demo (Val ''key1'') [1, 2] default_storage))))) =
     Inr (Val [1, 2])"
proof -
  have h: "''key1'' \<noteq> [] \<and> unmarshalPrivateKey demo (pair_bytes demo [1, 2]) = Inr [1, 2] \<and>
     unmarshal demo (marshal demo [1, 2]) = Inr [1, 2]"
    by code_simp
  have p: "storage_put counting (''private_'' @ ''key1'') (marshal demo [1, 2]) 0 = (Inr (), 1)"
    by (simp add: counting_def)
  note a = createKey_then_getKey [of "''key1''" demo "[1, 2]" "[1, 2]" counting 0 default_storage, THEN mp, OF h]
  from a p have c1: "createKey counting demo (Val ''key1'') [1, 2] 0 = (Inr [1, 2], 1)"
    by simp
  from a have c2: "fst (createKey ComposedStorage demo (Val ''key1'') [1, 2] default_storage) =
        Inr [1, 2] \<and>
     map_of (persistent_tier
        (snd (createKey ComposedStorage demo (Val ''key1'') [1, 2] default_storage))) =
       (map_of (persistent_tier default_storage))
         (''private_'' @ ''key1'' \<mapsto> marshal demo [1, 2]) \<and>
     fst (getKey ComposedStorage demo (Val ''key1'')
        (snd (createKey ComposedStorage demo (Val ''key1'') [1, 2] default_storage))) =
       Inr (Val [1, 2]) \<and>
     fst (getKey ComposedStorage demo (Val ''key1'')
        (snd (getKey ComposedStorage demo (Val ''key1'')
           (snd (createKey ComposedStorage demo (Val ''key1'') [1, 2] default_storage))))) =
       Inr (Val [1, 2])"
    by (simp only: split_beta Let_def)
  from h c1 c2 show ?thesis by blast
qed

section \<open>Keys that are not stored\<close>

text \<open>
  Claim C6. An id is a non-empty string (the empty and the missing id are claim C7). On
  every storage: when \<open>storage.get\<close> of \<open>"private_" + id\<close> gives no value (it returns
  undefined or null, or it throws), \<open>getKey\<close> returns undefined and does not throw;
  \<open>hasKey\<close> returns true exactly when \<open>storage.get\<close> returns a value; and when
  \<open>storage.get\<close> throws, \<open>getKey\<close> returns undefined and \<open>hasKey\<close> false.
\<close>

theorem absent_key_lookup:
  "i \<noteq> [] \<longrightarrow>
     ((\<forall>v. fst (storage_get S (''private_'' @ i) st) \<noteq> Inr (Val v)) \<longrightarrow>
        fst (getKey S P (Val i) st) = Inr Undefined) \<and>
     fst (hasKey S (Val i) st) =
        Inr (\<exists>v. fst (storage_get S (''private_'' @ i) st) = Inr (Val v)) \<and>
     ((\<exists>e. fst (storage_get S (''private_'' @ i) st) = Inl e) \<longrightarrow>
        fst (getKey S P (Val i) st) = Inr Undefined \<and> fst (hasKey S (Val i) st) = Inr False)"
proof (intro impI)
  assume i: "i \<noteq> []"
  obtain r st1 where g: "storage_get S (''private_'' @ i) st = (r, st1)"
    by (cases "storage_get S (''private_'' @ i) st")
  show "((\<forall>v. fst (storage_get S (''private_'' @ i) st) \<noteq> Inr (Val v)) \<longrightarrow>
        fst (getKey S P (Val i) st) = Inr Undefined) \<and>
     fst (hasKey S (Val i) st) =
        Inr (\<exists>v. fst (storage_get S (''private_'' @ i) st) = Inr (Val v)) \<and>
     ((\<exists>e. fst (storage_get S (''private_'' @ i) st) = Inl e) \<longrightarrow>
        fst (getKey S P (Val i) st) = Inr Undefined \<and> fst (hasKey S (Val i) st) = Inr False)"
  proof (cases r)
    case (Inl e)
    with i g show ?thesis by (simp add: getKey_def hasKey_def)
  next
    case (Inr x)
    with i g show ?thesis by (cases x) (simp_all add: getKey_def hasKey_def)
  qed
qed

theorem absent_key_lookup_witness:
  "''key111111111'' \<noteq> [] \<and> ''key1'' \<noteq> [] \<and>
   fst (storage_get ComposedStorage (''private_'' @ ''key111111111'') default_storage) =
     Inr Undefined \<and>
   fst (getKey ComposedStorage demo (Val ''key111111111'') default_storage) = Inr Undefined \<and>
   fst (hasKey ComposedStorage (Val ''key111111111'') default_storage) = Inr False \<and>
   fst (storage_get failing (''private_'' @ ''key1'') ()) =
     Inl (Error ''ENOENT: no such file or directory'') \<and>
   fst (getKey failing demo (Val ''key1'') ()) = Inr Undefined \<and>
   fst (hasKey failing (Val ''key1'') ()) = Inr False \<and>
   fst (storage_get ComposedStorage (''private_'' @ ''key1'')
          (snd (createKey ComposedStorage demo (Val ''key1'') [1, 2] default_storage))) =
     Inr (Val [1, 2]) \<and>
   fst (hasKey ComposedStorage (Val ''key1'')
          (snd (createKey ComposedStorage demo (Val ''key1'') [1, 2] default_storage))) =
     Inr True"
proof -
  let ?st1 = "snd (createKey ComposedStorage demo (Val ''key1'') [1, 2] default_storage)"
  have n1: "''key111111111'' \<noteq> []" and n2: "''key1'' \<noteq> []" by simp_all
  have g1: "fst (storage_get ComposedStorage (''private_'' @ ''key111111111'') default_storage) =
      Inr Undefined"
    by code_simp
  have g2: "fst (storage_get failing (''private_'' @ ''key1'') ()) =
      Inl (Error ''ENOENT: no such file or directory'')"
    by (simp add: failing_def)
  have g3: "fst (storage_get ComposedStorage (''private_'' @ ''key1'') ?st1) = Inr (Val [1, 2])"
    by code_simp
  note a1 = absent_key_lookup [of "''key111111111''" ComposedStorage default_storage demo, THEN mp, OF n1]
  note a2 = absent_key_lookup [of "''key1''" failing "()" demo, THEN mp, OF n2]
  note a3 = absent_key_lookup [of "''key1''" ComposedStorage ?st1 demo, THEN mp, OF n2]
  from a1 g1 have c1:
    "fst (getKey ComposedStorage demo (Val ''key111111111'') default_storage) = Inr Undefined \<and>
     fst (hasKey ComposedStorage (Val ''key111111111'') default_storage) = Inr False"
    by simp
  from a2 g2 have c2:
    "fst (getKey failing demo (Val ''key1'') ()) = Inr Undefined \<and>
     fst (hasKey failing (Val ''key1'') ()) = Inr False"
    by simp
  from a3 g3 have c3: "fst (hasKey ComposedStorage (Val ''key1'') ?st1) = Inr True"
    by simp
  from n1 n2 g1 g2 g3 c1 c2 c3 show ?thesis by blast
qed

section \<open>A missing id\<close>

text \<open>
  Claim C7, as stated, says that the three functions fail synchronously. They are async
  functions: with a missing id the call does not throw, it returns a promise that is
  rejected with the \<open>id needed\<close> error.
\<close>

theorem missing_id_rejects_promise:
  "async (fst (createKey counting demo Undefined [1, 2] 0)) =
     Returned (Rejected (Error ''id needed to create a key'')) \<and>
   async (fst (createKey counting demo Undefined [1, 2] 0)) \<noteq>
     Thrown (Error ''id needed to create a key'') \<and>
   async (fst (getKey counting demo Null 0)) =
     Returned (Rejected (Error ''id needed to get a key'')) \<and>
   async (fst (getKey counting demo Null 0)) \<noteq>
     Thrown (Error ''id needed to get a key'') \<and>
   async (fst (hasKey counting (Val '''') 0)) =
     Returned (Rejected (Error ''id needed to check a key'')) \<and>
   async (fst (hasKey counting (Val '''') 0)) \<noteq>
     Thrown (Error ''id needed to check a key'')"
  by (simp add: async_def createKey_def getKey_def hasKey_def)

text \<open>
  Claim C7, for the rejection. For an id that is undefined (no argument), null or the
  empty string, each of \<open>createKey\<close>, \<open>getKey\<close> and \<open>hasKey\<close> fails with its own
  \<open>id needed\<close> error, on every storage and with the state of the storage unchanged;
  the call returns a promise rejected with that error. The storage is arbitrary, so this
  includes one that changes its state at every access: no \<open>get\<close> and no \<open>put\<close> is
  made. The error is raised before the first \<open>await\<close> of the function.
\<close>

theorem missing_id_rejected:
  "\<not> truthy_str ident \<longrightarrow>
     createKey S P ident pair st = (Inl (Error ''id needed to create a key''), st) \<and>
     getKey S P ident st = (Inl (Error ''id needed to get a key''), st) \<and>
     hasKey S ident st = (Inl (Error ''id needed to check a key''), st) \<and>
     async (fst (createKey S P ident pair st)) =
       Returned (Rejected (Error ''id needed to create a key'')) \<and>
     async (fst (getKey S P ident st)) =
       Returned (Rejected (Error ''id needed to get a key'')) \<and>
     async (fst (hasKey S ident st)) =
       Returned (Rejected (Error ''id needed to check a key''))"
  by (cases ident) (simp_all add: createKey_def getKey_def hasKey_def async_def)

theorem missing_id_rejected_witness:
  "\<not> truthy_str Undefined \<and> \<not> truthy_str Null \<and> \<not> truthy_str (Val '''') \<and>
   createKey counting demo Undefined [1, 2] 0 = (Inl (Error ''id needed to create a key''), 0) \<and>
   getKey counting demo Undefined 0 = (Inl (Error ''id needed to get a key''), 0) \<and>
   hasKey counting Undefined 0 = (Inl (Error ''id needed to check a key''), 0) \<and>
   createKey counting demo Null [1, 2] 0 = (Inl (Error ''id needed to create a key''), 0) \<and>
   getKey counting demo Null 0 = (Inl (Error ''id needed to get a key''), 0) \<and>
   hasKey counting Null 0 = (Inl (Error ''id needed to check a key''), 0) \<and>
   createKey counting demo (Val '''') [1, 2] 0 = (Inl (Error ''id needed to create a key''), 0) \<and>
   getKey counting demo (Val '''') 0 = (Inl (Error ''id needed to get a key''), 0) \<and>
   hasKey counting (Val '''') 0 = (Inl (Error ''id needed to check a key''), 0) \<and>
   async (fst (createKey counting demo Undefined [1, 2] 0)) =
     Returned (Rejected (Error ''id needed to create a key'')) \<and>
   async (fst (getKey counting demo Null 0)) =
     Returned (Rejected (Error ''id needed to get a key'')) \<and>
   async (fst (hasKey counting (Val '''') 0)) =
     Returned (Rejected (Error ''id needed to check a key'')) \<and>
   hasKey counting (Val ''key1'') 0 = (Inr False, 1)"
proof -
  have h1: "\<not> truthy_str Undefined" and h2: "\<not> truthy_str Null" and h3: "\<not> truthy_str (Val '''')"
    by simp_all
  have c: "hasKey counting (Val ''key1'') 0 = (Inr False, 1)"
    by (simp add: hasKey_def counting_def)
  from h1 h2 h3 c
    missing_id_rejected [of Undefined counting demo "[1, 2]" 0, THEN mp, OF h1]
    missing_id_rejected [of Null counting demo "[1, 2]" 0, THEN mp, OF h2]
    missing_id_rejected [of "Val ''''" counting demo "[1, 2]" 0, THEN mp, OF h3]
  show ?thesis by blast
qed

section \<open>The format of getPublic\<close>

text \<open>
  Claim C8, as stated, at the format \<open>''\<close> (the empty string): it is a value other than
  \<open>'hex'\<close> and \<open>'buffer'\<close>, but \<open>options.format || 'hex'\<close> on line 160 replaces it by
  \<open>'hex'\<close>, and the call returns the hex string instead of failing.
\<close>

theorem getPublic_empty_format_is_hex:
  "'''' \<noteq> ''hex'' \<and> '''' \<noteq> ''buffer'' \<and>
   getPublic demo (Val [1, 2]) (Val '''') = Inr (Str ''0203'')"
  by code_simp

text \<open>
  Claim C8, with the default of line 160. For every key pair, \<open>getPublic\<close> with
  \<open>'buffer'\<close> returns the public-key bytes and with \<open>'hex'\<close> their hex encoding, which
  decodes to the same bytes. For every non-empty format other than \<open>'hex'\<close> and
  \<open>'buffer'\<close> the call fails with the unsupported-format error. A format that is
  missing, null or empty is treated as \<open>'hex'\<close>.
\<close>

theorem getPublic_formats:
  "getPublic P (Val k) (Val ''buffer'') = Inr (Buf (public_marshal P k)) \<and>
   getPublic P (Val k) (Val ''hex'') = Inr (Str (toString_hex (public_marshal P k))) \<and>
   from_hex (toString_hex (public_marshal P k)) = public_marshal P k \<and>
   (f \<noteq> [] \<and> f \<noteq> ''hex'' \<and> f \<noteq> ''buffer'' \<longrightarrow>
      getPublic P keys (Val f) = Inl (Error ''Supported formats are `hex` and `buffer`'')) \<and>
   (\<not> truthy_str fmt \<longrightarrow> getPublic P keys fmt = getPublic P keys (Val ''hex''))"
proof (intro conjI impI)
  show "getPublic P (Val k) (Val ''buffer'') = Inr (Buf (public_marshal P k))"
    by (simp add: getPublic_def formats_def)
  show "getPublic P (Val k) (Val ''hex'') = Inr (Str (toString_hex (public_marshal P k)))"
    by (simp add: getPublic_def formats_def)
  show "from_hex (toString_hex (public_marshal P k)) = public_marshal P k"
    by (rule from_hex_toString_hex)
next
  assume "f \<noteq> [] \<and> f \<noteq> ''hex'' \<and> f \<noteq> ''buffer''"
  then show "getPublic P keys (Val f) = Inl (Error ''Supported formats are `hex` and `buffer`'')"
    by (simp add: getPublic_def formats_def)
next
  assume "\<not> truthy_str fmt"
  then show "getPublic P keys fmt = getPublic P keys (Val ''hex'')"
    by (cases fmt) (simp_all add: getPublic_def)
qed

theorem getPublic_formats_witness:
  "''foo'' \<noteq> [] \<and> ''foo'' \<noteq> ''hex'' \<and> ''foo'' \<noteq> ''buffer'' \<and>
   getPublic demo (Val [1, 2]) (Val ''foo'') =
     Inl (Error ''Supported formats are `hex` and `buffer`'') \<and>
   \<not> truthy_str Undefined \<and>
   getPublic demo (Val [1, 2]) Undefined = getPublic demo (Val [1, 2]) (Val ''hex'') \<and>
   getPublic demo (Val [1, 2]) (Val ''buffer'') = Inr (Buf [2, 3]) \<and>
   getPublic demo (Val [1, 2]) (Val ''hex'') = Inr (Str ''0203'')"
proof -
  have h1: "''foo'' \<noteq> [] \<and> ''foo'' \<noteq> ''hex'' \<and> ''foo'' \<noteq> ''buffer''" by simp
  have h2: "\<not> truthy_str Undefined" by simp
  have e1: "public_marshal demo [1, 2] = [2, 3]" by code_simp
  have e2: "toString_hex [2, 3] = ''0203''" by code_simp
  note a = getPublic_formats [of demo "[1, 2]" "''foo''" "Val [1, 2]" Undefined]
  from a h1 have c1: "getPublic demo (Val [1, 2]) (Val ''foo'') =
      Inl (Error ''Supported formats are `hex` and `buffer`'')"
    by blast
  from a h2 have c2:
    "getPublic demo (Val [1, 2]) Undefined = getPublic demo (Val [1, 2]) (Val ''hex'')"
    by blast
  from a e1 e2 have c3: "getPublic demo (Val [1, 2]) (Val ''buffer'') = Inr (Buf [2, 3]) \<and>
      getPublic demo (Val [1, 2]) (Val ''hex'') = Inr (Str ''0203'')"
    by simp
  from h1 h2 c1 c2 c3 show ?thesis by blast
qed

section \<open>The format is checked before the key pair is read\<close>

text \<open>
  Claim C10, as stated, at the format \<open>''\<close>: it is outside \<open>{'hex', 'buffer'}\<close>, the
  default of line 160 makes it \<open>'hex'\<close>, the check of line 161 passes, and line 164 fails
  by reading \<open>public\<close> from the missing key pair.
\<close>

theorem getPublic_empty_format_reads_keys:
  "'''' \<notin> set formats \<and>
   getPublic demo Null (Val '''') = Inl (TypeError ''Cannot read properties of null'') \<and>
   getPublic demo Undefined (Val '''') = Inl (TypeError ''Cannot read properties of undefined'')"
  by code_simp

text \<open>
  Claim C10, with the default of line 160. For a key pair that is undefined or null:
  every non-empty format outside \<open>{'hex', 'buffer'}\<close> gives the unsupported-format
  error; a format that is missing, null or empty passes the check as \<open>'hex'\<close>, and the
  call fails with the TypeError of reading the missing key pair.
\<close>

theorem getPublic_checks_format_first:
  "keys = Undefined \<or> keys = Null \<longrightarrow>
     (f \<noteq> [] \<and> f \<notin> set formats \<longrightarrow>
        getPublic P keys (Val f) = Inl (Error ''Supported formats are `hex` and `buffer`'')) \<and>
     (\<not> truthy_str fmt \<longrightarrow> (\<exists>m. getPublic P keys fmt = Inl (TypeError m)))"
proof (intro impI conjI)
  assume "keys = Undefined \<or> keys = Null" and "f \<noteq> [] \<and> f \<notin> set formats"
  then show "getPublic P keys (Val f) = Inl (Error ''Supported formats are `hex` and `buffer`'')"
    by (simp add: getPublic_def)
next
  assume "keys = Undefined \<or> keys = Null" and "\<not> truthy_str fmt"
  then show "\<exists>m. getPublic P keys fmt = Inl (TypeError m)"
    by (cases fmt) (auto simp: getPublic_def formats_def)
qed

theorem getPublic_checks_format_first_witness:
  "''foo'' \<noteq> [] \<and> ''foo'' \<notin> set formats \<and>
   getPublic demo Undefined (Val ''foo'') =
     Inl (Error ''Supported formats are `hex` and `buffer`'') \<and>
   getPublic demo Null (Val ''foo'') =
     Inl (Error ''Supported formats are `hex` and `buffer`'') \<and>
   \<not> truthy_str Null \<and> (\<exists>m. getPublic demo Undefined Null = Inl (TypeError m))"
proof -
  have h1: "''foo'' \<noteq> [] \<and> ''foo'' \<notin> set formats" by (simp add: formats_def)
  have h2: "\<not> truthy_str Null" by simp
  have k1: "(Undefined :: bytes js) = Undefined \<or> (Undefined :: bytes js) = Null" by simp
  have k2: "(Null :: bytes js) = Undefined \<or> (Null :: bytes js) = Null" by simp
  note a1 = getPublic_checks_format_first [of Undefined "''foo''" demo Null, THEN mp, OF k1]
  note a2 = getPublic_checks_format_first [of Null "''foo''" demo Null, THEN mp, OF k2]
  from h1 h2 a1 a2 show ?thesis by blast
qed

section \<open>Bindings of the verification cache\<close>

lemma verifyMessage_binding_unchanged:
  assumes "lru_lookup c k = Some e1" and "lru_lookup (snd (verifyMessage P c s pk d)) k = Some e2"
  shows "e2 = e1"
proof (cases "lru_lookup c s")
  case (Some e)
  then have "lru_lookup (snd (verifyMessage P c s pk d)) = lru_lookup c"
    by (simp add: verifyMessage_hit lru_get_lookup)
  with assms show ?thesis by simp
next
  case None
  show ?thesis
  proof (cases "verifySignature P s pk d = Inr True")
    case True
    with None have "snd (verifyMessage P c s pk d) = lru_put s \<lparr>publicKey = pk, data = d\<rparr> c"
      by (simp add: verifyMessage_miss)
    with assms(2) have "(k = s \<and> e2 = \<lparr>publicKey = pk, data = d\<rparr>) \<or> lru_lookup c k = Some e2"
      using lru_put_lookup [of s "\<lparr>publicKey = pk, data = d\<rparr>" c k e2] by simp
    with None assms(1) show ?thesis by auto
  next
    case False
    with None have "snd (verifyMessage P c s pk d) = c"
      by (auto simp: verifyMessage_miss split: sum.splits)
    with assms show ?thesis by simp
  qed
qed

text \<open>
  Claim C9, as stated, on a cache with two entries: the call hits the older entry, and the
  lookup of line 57 moves it to the front of the LRU order. The cache after the call is
  not the cache before it.
\<close>

theorem verifyMessage_hit_reorders_cache:
  "lru_lookup
     (run demo [(Val ''020361'', Val ''0203'', Val (Str ''a'')),
                (Val ''020362'', Val ''0203'', Val (Str ''b''))] verifiedCache)
     (Val ''020361'') = Some \<lparr>publicKey = Val ''0203'', data = Val (Str ''a'')\<rparr> \<and>
   snd (verifyMessage demo
          (run demo [(Val ''020361'', Val ''0203'', Val (Str ''a'')),
                     (Val ''020362'', Val ''0203'', Val (Str ''b''))] verifiedCache)
          (Val ''020361'') (Val ''0203'') (Val (Str ''a''))) \<noteq>
   run demo [(Val ''020361'', Val ''0203'', Val (Str ''a'')),
             (Val ''020362'', Val ''0203'', Val (Str ''b''))] verifiedCache"
  by code_simp

text \<open>
  Claim C9, for the bindings. On a hit \<open>verifyMessage\<close> does what the lookup of line 57
  does and nothing more: the cache after the call is the cache after
  \<open>verifiedCache.get(signature)\<close>, it binds every signature to the same public key and
  data as before, and its capacity is the same, whatever the call returns. For every call,
  hit or miss: a signature bound in the cache before and after the call is bound to the
  same public key and data.
\<close>


theorem verifyMessage_hit_keeps_bindings:
  "(lru_lookup c s = Some e \<longrightarrow>
      snd (verifyMessage P c s pk d) = snd (lru_get s c) \<and>
      lru_lookup (snd (verifyMessage P c s pk d)) = lru_lookup c \<and>
      capacity (snd (verifyMessage P c s pk d)) = capacity c) \<and>
   (lru_lookup c k = Some e1 \<and> lru_lookup (snd (verifyMessage P c s pk d)) k = Some e2 \<longrightarrow>
      e2 = e1)"
proof (intro conjI impI)
  assume h: "lru_lookup c s = Some e"
  then show "snd (verifyMessage P c s pk d) = snd (lru_get s c)"
    by (simp add: verifyMessage_hit)
  from h show "lru_lookup (snd (verifyMessage P c s pk d)) = lru_lookup c"
    by (simp add: verifyMessage_hit lru_get_lookup)
  from h show "capacity (snd (verifyMessage P c s pk d)) = capacity c"
    by (simp add: verifyMessage_hit lru_get_capacity)
next
  assume "lru_lookup c k = Some e1 \<and> lru_lookup (snd (verifyMessage P c s pk d)) k = Some e2"
  then show "e2 = e1" using verifyMessage_binding_unchanged by blast
qed

theorem verifyMessage_hit_keeps_bindings_witness:
  "lru_lookup
     (run demo [(Val ''020361'', Val ''0203'', Val (Str ''a'')),
                (Val ''020362'', Val ''0203'', Val (Str ''b''))] verifiedCache)
     (Val ''020361'') = Some \<lparr>publicKey = Val ''0203'', data = Val (Str ''a'')\<rparr> \<and>
   lru_lookup
     (snd (verifyMessage demo
        (run demo [(Val ''020361'', Val ''0203'', Val (Str ''a'')),
                   (Val ''020362'', Val ''0203'', Val (Str ''b''))] verifiedCache)
        (Val ''020361'') (Val ''ff'') (Val (Str ''a''))))
     (Val ''020362'') =
   lru_lookup
     (run demo [(Val ''020361'', Val ''0203'', Val (Str ''a'')),
                (Val ''020362'', Val ''0203'', Val (Str ''b''))] verifiedCache)
     (Val ''020362'') \<and>
   capacity
     (snd (verifyMessage demo
        (run demo [(Val ''020361'', Val ''0203'', Val (Str ''a'')),
                   (Val ''020362'', Val ''0203'', Val (Str ''b''))] verifiedCache)
        (Val ''020361'') (Val ''ff'') (Val (Str ''a'')))) = 1000 \<and>
   lru_lookup
     (snd (verifyMessage demo
        (run demo [(Val ''020361'', Val ''0203'', Val (Str ''a'')),
                   (Val ''020362'', Val ''0203'', Val (Str ''b''))] verifiedCache)
        (Val ''020361'') (Val ''ff'') (Val (Str ''a''))))
     (Val ''020361'') = Some \<lparr>publicKey = Val ''0203'', data = Val (Str ''a'')\<rparr>"
proof -
  let ?c = "run demo [(Val ''020361'', Val ''0203'', Val (Str ''a'')),
                      (Val ''020362'', Val ''0203'', Val (Str ''b''))] verifiedCache"
  let ?e = "\<lparr>publicKey = Val ''0203'', data = Val (Str ''a'')\<rparr>"
  let ?after = "snd (verifyMessage demo ?c (Val ''020361'') (Val ''ff'') (Val (Str ''a'')))"
  have h: "lru_lookup ?c (Val ''020361'') = Some ?e" by code_simp
  have cap: "capacity ?c = 1000" by code_simp
  have h2: "lru_lookup ?after (Val ''020361'') = Some ?e" by code_simp
  note a = verifyMessage_hit_keeps_bindings
    [of ?c "Val ''020361''" ?e demo "Val ''ff''" "Val (Str ''a'')" "Val ''020361''" ?e ?e]
  from a h have eq: "lru_lookup ?after = lru_lookup ?c" by blast
  then have c1: "lru_lookup ?after (Val ''020362'') = lru_lookup ?c (Val ''020362'')" by simp
  from a h have "capacity ?after = capacity ?c" by blast
  with cap have c2: "capacity ?after = 1000" by (simp only:)
  from h c1 c2 h2 show ?thesis by blast
qed

end
